theory Spec2Isabelle
  imports Main "HOL-Library.Sublist"
begin

section \<open>Python values and exceptions\<close>

text \<open>
  The values that flow through \<^verbatim>\<open>integration.py\<close> are what \<^verbatim>\<open>json.loads\<close> produces
  and what the service clients return: \<^verbatim>\<open>None\<close>, booleans, integers, strings, lists and
  dictionaries with string keys. A dictionary is an association list in insertion order
  (the order \<^verbatim>\<open>dict.items()\<close> iterates in); lookup takes the first entry of a key.
  Floating-point numbers are left out.
\<close>

datatype pyval =
    PNone
  | PBool bool
  | PInt int
  | PStr string
  | PList "pyval list"
  | PDict "(string \<times> pyval) list"

text \<open>
  Exceptions (subclasses of \<^verbatim>\<open>Exception\<close>) by class. \<open>KeyError\<close> carries the missing key,
  the others carry the text that \<^verbatim>\<open>str(e)\<close> gives. \<open>RecursionError\<close> is what the interpreter
  raises at its recursion limit, in \<^verbatim>\<open>json.loads\<close> on a text nested too deep and in a call
  of the program nested too deep. \<open>RemoteError\<close> stands for whatever an external call
  raises (the model API, a Google API client).
\<close>

datatype exn =
    KeyError string
  | TypeError string
  | AttributeError string
  | IndexError string
  | JSONDecodeError string
  | RecursionError string
  | RemoteError string

text \<open>\<^verbatim>\<open>str(e)\<close>: for a \<open>KeyError\<close> the repr of the key (a key without quotes or escapes).\<close>

fun str_exn :: "exn \<Rightarrow> string" where
  "str_exn (KeyError k) = [CHR 0x27] @ k @ [CHR 0x27]"
| "str_exn (TypeError m) = m"
| "str_exn (AttributeError m) = m"
| "str_exn (IndexError m) = m"
| "str_exn (JSONDecodeError m) = m"
| "str_exn (RecursionError m) = m"
| "str_exn (RemoteError m) = m"

fun type_name :: "pyval \<Rightarrow> string" where
  "type_name PNone = ''NoneType''"
| "type_name (PBool _) = ''bool''"
| "type_name (PInt _) = ''int''"
| "type_name (PStr _) = ''str''"
| "type_name (PList _) = ''list''"
| "type_name (PDict _) = ''dict''"

definition no_attribute :: "pyval \<Rightarrow> string \<Rightarrow> exn" where
  "no_attribute v attr =
     AttributeError ([CHR 0x27] @ type_name v @ [CHR 0x27] @ '' object has no attribute ''
                     @ [CHR 0x27] @ attr @ [CHR 0x27])"


text \<open>\<^verbatim>\<open>d.get(k, default)\<close> on a dictionary.\<close>

definition dict_get :: "(string \<times> pyval) list \<Rightarrow> string \<Rightarrow> pyval \<Rightarrow> pyval" where
  "dict_get d k dflt = (case map_of d k of Some v \<Rightarrow> v | None \<Rightarrow> dflt)"

text \<open>\<^verbatim>\<open>v.get(k, default)\<close> on any value: only a dictionary has the method.\<close>

definition value_get :: "pyval \<Rightarrow> string \<Rightarrow> pyval \<Rightarrow> exn + pyval" where
  "value_get v k dflt =
     (case v of PDict d \<Rightarrow> Inr (dict_get d k dflt) | _ \<Rightarrow> Inl (no_attribute v ''get''))"

text \<open>\<^verbatim>\<open>d[k] = v\<close>: replaces the value of a present key in place, appends a new key.\<close>

fun dict_set :: "(string \<times> pyval) list \<Rightarrow> string \<Rightarrow> pyval \<Rightarrow> (string \<times> pyval) list" where
  "dict_set [] k v = [(k, v)]"
| "dict_set ((k', v') # d) k v = (if k' = k then (k, v) # d else (k', v') # dict_set d k v)"

text \<open>\<^verbatim>\<open>xs[i:]\<close> for an integer \<open>i\<close>: a negative start counts from the end, and both are clipped.\<close>

definition slice_from :: "int \<Rightarrow> 'a list \<Rightarrow> 'a list" where
  "slice_from i xs =
     (let n = int (length xs);
          start = (if i < 0 then max (n + i) 0 else min i n)
      in drop (nat start) xs)"

section \<open>llm\_client.py\<close>

record message =
  role :: string
  content :: string

record ConversationContext =
  messages :: "message list"
  max_context_length :: int

text \<open>\<^verbatim>\<open>ConversationContext.add_message\<close> (lines 25-37).\<close>

definition add_message :: "ConversationContext \<Rightarrow> string \<Rightarrow> string \<Rightarrow> ConversationContext" where
  "add_message c r t =
     (let appended = messages c @ [\<lparr>role = r, content = t\<rparr>]
      in if int (length appended) > max_context_length c
         then c\<lparr>messages := slice_from (- max_context_length c) appended\<rparr>
         else c\<lparr>messages := appended\<rparr>)"

text \<open>\<^verbatim>\<open>ConversationContext.clear\<close>.\<close>

definition clear :: "ConversationContext \<Rightarrow> ConversationContext" where
  "clear c = c\<lparr>messages := []\<rparr>"

text \<open>
  What the program calls and does not define. The state of everything outside the
  process is a value of type \<open>'w\<close>; an external call reads it, returns or raises, and
  leaves a new one.
  \<^item> \<open>chat_completions_create\<close>: \<^verbatim>\<open>self.client.chat.completions.create(messages=...)\<close>
    with the fixed model and generation parameters; returns the contents of the
    response's choices, in order.
  \<^item> \<open>json_loads\<close>, \<open>json_dumps\<close>: the standard library's \<^verbatim>\<open>json.loads\<close> on a string
    and \<^verbatim>\<open>json.dumps\<close> on a value made of parsed JSON.
  \<^item> \<open>py_repr\<close>: what an f-string writes for a value that is not a string.
  \<^item> \<open>client_call\<close>: a method of one of the five service clients, called with keyword
    arguments.
\<close>

datatype client_op =
    Gmail_create_item
  | Gmail_list_items
  | Calendar_create_item
  | Calendar_list_items
  | Drive_upload_file
  | Drive_list_items
  | Sheets_create_item
  | Sheets_read_values
  | Docs_create_item
  | Docs_append_text

record 'w env =
  chat_completions_create :: "message list \<Rightarrow> 'w \<Rightarrow> (exn + string list) \<times> 'w"
  json_loads :: "string \<Rightarrow> exn + pyval"
  json_dumps :: "pyval \<Rightarrow> string"
  py_repr :: "pyval \<Rightarrow> string"
  client_call :: "client_op \<Rightarrow> (string \<times> pyval) list \<Rightarrow> 'w \<Rightarrow> (exn + pyval) \<times> 'w"

text \<open>The mutable state: the client's conversation context and the outside world.\<close>

record 'w state =
  llm_context :: ConversationContext
  world :: 'w

text \<open>
  The message sequence of \<^verbatim>\<open>generate_response\<close> (lines 89-105): the system message when
  it is given and not empty, the stored history, the prompt as the last user turn.
\<close>

definition outgoing_messages :: "string option \<Rightarrow> message list \<Rightarrow> string \<Rightarrow> message list" where
  "outgoing_messages system_message history prompt =
     (case system_message of
        None \<Rightarrow> []
      | Some m \<Rightarrow> (if m = [] then [] else [\<lparr>role = ''system'', content = m\<rparr>]))
     @ history
     @ [\<lparr>role = ''user'', content = prompt\<rparr>]"

text \<open>
  \<^verbatim>\<open>GroqLLMClient.generate_response\<close> (lines 76-126). The handler of the \<^verbatim>\<open>try\<close> logs
  and re-raises; \<^verbatim>\<open>response.choices[0]\<close> raises \<open>IndexError\<close> on an empty list. The
  content of a choice is a string, as the method's return type says.
\<close>

definition generate_response ::
  "'w env \<Rightarrow> string \<Rightarrow> string option \<Rightarrow> 'w state \<Rightarrow> (exn + string) \<times> 'w state" where
  "generate_response env prompt system_message s =
     (case chat_completions_create env
             (outgoing_messages system_message (messages (llm_context s)) prompt) (world s) of
        (Inl e, w') \<Rightarrow> (Inl e, s\<lparr>world := w'\<rparr>)
      | (Inr choices, w') \<Rightarrow>
          (case choices of
             [] \<Rightarrow> (Inl (IndexError ''list index out of range''), s\<lparr>world := w'\<rparr>)
           | generated_text # _ \<Rightarrow>
               (Inr generated_text,
                \<lparr>llm_context =
                   add_message (add_message (llm_context s) ''user'' prompt)
                     ''assistant'' generated_text,
                 world = w'\<rparr>)))"

text \<open>A run of appends, for statements about the history after several of them.\<close>

definition add_messages :: "ConversationContext \<Rightarrow> message list \<Rightarrow> ConversationContext" where
  "add_messages c ms = foldl (\<lambda>c' m. add_message c' (role m) (content m)) c ms"

section \<open>integration.py\<close>

text \<open>The Result dictionaries that the module builds.\<close>

definition success_result :: "pyval \<Rightarrow> pyval" where
  "success_result v = PDict [(''status'', PStr ''success''), (''result'', v)]"

definition error_result :: "string \<Rightarrow> pyval" where
  "error_result msg = PDict [(''status'', PStr ''error''), (''message'', PStr msg)]"

text \<open>What an f-string writes for a value: a string as it is, anything else by its repr.\<close>

definition format_value :: "'w env \<Rightarrow> pyval \<Rightarrow> string" where
  "format_value env v = (case v of PStr t \<Rightarrow> t | _ \<Rightarrow> py_repr env v)"

text \<open>
  The keyword arguments of a client call, each \<^verbatim>\<open>name=details.get(name, default)\<close>,
  evaluated from left to right; the first \<^verbatim>\<open>.get\<close> on a value that is not a dictionary
  raises.
\<close>

fun eval_kwargs :: "pyval \<Rightarrow> (string \<times> pyval) list \<Rightarrow> exn + (string \<times> pyval) list" where
  "eval_kwargs details [] = Inr []"
| "eval_kwargs details ((name, dflt) # rest) =
     (case value_get details name dflt of
        Inl e \<Rightarrow> Inl e
      | Inr v \<Rightarrow>
          (case eval_kwargs details rest of
             Inl e \<Rightarrow> Inl e
           | Inr kwargs \<Rightarrow> Inr ((name, v) # kwargs)))"

text \<open>
  One branch of a handler:
  \<^verbatim>\<open>return {'status': 'success', 'result': self.client.method(name=details.get(...), ...)}\<close>.
\<close>

definition call_client ::
  "'w env \<Rightarrow> client_op \<Rightarrow> pyval \<Rightarrow> (string \<times> pyval) list \<Rightarrow> 'w state
     \<Rightarrow> (exn + pyval) \<times> 'w state" where
  "call_client env op details params s =
     (case eval_kwargs details params of
        Inl e \<Rightarrow> (Inl e, s)
      | Inr kwargs \<Rightarrow>
          (case client_call env op kwargs (world s) of
             (Inl e, w') \<Rightarrow> (Inl e, s\<lparr>world := w'\<rparr>)
           | (Inr v, w') \<Rightarrow> (Inr (success_result v), s\<lparr>world := w'\<rparr>)))"

text \<open>
  The five handlers (lines 126-285). Each reads \<^verbatim>\<open>intent.get('action', '')\<close> and
  \<^verbatim>\<open>intent.get('details', {})\<close>, has two branches, and falls off its end otherwise,
  which returns \<^verbatim>\<open>None\<close>.
\<close>

definition handle_email_request ::
  "'w env \<Rightarrow> (string \<times> pyval) list \<Rightarrow> 'w state \<Rightarrow> (exn + pyval) \<times> 'w state" where
  "handle_email_request env intent s =
     (let action = dict_get intent ''action'' (PStr '''');
          details = dict_get intent ''details'' (PDict [])
      in if action = PStr ''send'' then
           call_client env Gmail_create_item details
             [(''to'', PStr ''''), (''subject'', PStr ''''), (''body'', PStr '''')] s
         else if action = PStr ''read'' then
           call_client env Gmail_list_items details
             [(''max_results'', PInt 10), (''query'', PNone)] s
         else (Inr PNone, s))"

definition handle_calendar_request ::
  "'w env \<Rightarrow> (string \<times> pyval) list \<Rightarrow> 'w state \<Rightarrow> (exn + pyval) \<times> 'w state" where
  "handle_calendar_request env intent s =
     (let action = dict_get intent ''action'' (PStr '''');
          details = dict_get intent ''details'' (PDict [])
      in if action = PStr ''create'' then
           call_client env Calendar_create_item details
             [(''summary'', PStr ''''), (''start_time'', PNone), (''end_time'', PNone),
              (''description'', PNone), (''attendees'', PNone)] s
         else if action = PStr ''list'' then
           call_client env Calendar_list_items details
             [(''max_results'', PInt 10), (''time_min'', PNone), (''time_max'', PNone)] s
         else (Inr PNone, s))"

definition handle_drive_request ::
  "'w env \<Rightarrow> (string \<times> pyval) list \<Rightarrow> 'w state \<Rightarrow> (exn + pyval) \<times> 'w state" where
  "handle_drive_request env intent s =
     (let action = dict_get intent ''action'' (PStr '''');
          details = dict_get intent ''details'' (PDict [])
      in if action = PStr ''upload'' then
           call_client env Drive_upload_file details
             [(''local_path'', PStr ''''), (''name'', PNone), (''parent_id'', PNone)] s
         else if action = PStr ''list'' then
           call_client env Drive_list_items details
             [(''max_results'', PInt 10), (''query'', PNone)] s
         else (Inr PNone, s))"

definition handle_sheets_request ::
  "'w env \<Rightarrow> (string \<times> pyval) list \<Rightarrow> 'w state \<Rightarrow> (exn + pyval) \<times> 'w state" where
  "handle_sheets_request env intent s =
     (let action = dict_get intent ''action'' (PStr '''');
          details = dict_get intent ''details'' (PDict [])
      in if action = PStr ''create'' then
           call_client env Sheets_create_item details
             [(''title'', PStr ''''), (''sheets'', PNone)] s
         else if action = PStr ''read'' then
           call_client env Sheets_read_values details
             [(''spreadsheet_id'', PStr ''''), (''range_name'', PStr '''')] s
         else (Inr PNone, s))"

definition handle_docs_request ::
  "'w env \<Rightarrow> (string \<times> pyval) list \<Rightarrow> 'w state \<Rightarrow> (exn + pyval) \<times> 'w state" where
  "handle_docs_request env intent s =
     (let action = dict_get intent ''action'' (PStr '''');
          details = dict_get intent ''details'' (PDict [])
      in if action = PStr ''create'' then
           call_client env Docs_create_item details
             [(''title'', PStr ''''), (''content'', PNone)] s
         else if action = PStr ''append'' then
           call_client env Docs_append_text details
             [(''document_id'', PStr ''''), (''text'', PStr '''')] s
         else (Inr PNone, s))"

text \<open>\<^verbatim>\<open>_extract_intent\<close> (lines 91-124).\<close>

definition system_prompt :: string where
  "system_prompt =
     ''\<newline>        You are an intent extraction assistant for a Google Workspace agent.''
   @ ''\<newline>        Extract the following from a user request:''
   @ ''\<newline>        - Target service (email, calendar, drive, sheets, docs, or multi)''
   @ ''\<newline>        - Specific action (create, read, update, delete, etc.)''
   @ ''\<newline>        - Relevant parameters''
   @ ''\<newline>        ''
   @ ''\<newline>        Return a JSON with these details.''
   @ ''\<newline>        ''"

definition fallback_intent :: "string \<Rightarrow> pyval" where
  "fallback_intent request =
     PDict [(''service'', PStr ''multi''), (''action'', PStr ''interpret''),
            (''details'', PStr request)]"

definition extract_intent :: "'w env \<Rightarrow> string \<Rightarrow> 'w state \<Rightarrow> (exn + pyval) \<times> 'w state" where
  "extract_intent env request s =
     (case generate_response env request (Some system_prompt) s of
        (Inl e, s') \<Rightarrow> (Inl e, s')
      | (Inr response, s') \<Rightarrow>
          (case json_loads env response of
             Inr intent \<Rightarrow> (Inr intent, s')
           | Inl (JSONDecodeError _) \<Rightarrow> (Inr (fallback_intent request), s')
           | Inl e \<Rightarrow> (Inl e, s')))"

text \<open>
  \<^verbatim>\<open>_handle_multi_service_request\<close> (lines 287-335). The method calls
  \<^verbatim>\<open>self.process_natural_language_request\<close>, which calls it back; that call is the
  argument \<open>recur\<close> here.
\<close>

definition breakdown_prompt :: "'w env \<Rightarrow> (string \<times> pyval) list \<Rightarrow> string" where
  "breakdown_prompt env intent =
     ''\<newline>        Break down this multi-service request into specific actions:''
   @ ''\<newline>        '' @ format_value env (dict_get intent ''details'' (PStr ''''))
   @ ''\<newline>        ''
   @ ''\<newline>        Provide a JSON with a list of actions for each service.''
   @ ''\<newline>        ''"

definition multi_failed :: "exn \<Rightarrow> pyval" where
  "multi_failed e = error_result (''Multi-service request processing failed: '' @ str_exn e)"

text \<open>\<^verbatim>\<open>actions.items()\<close>.\<close>

definition dict_items :: "pyval \<Rightarrow> exn + (string \<times> pyval) list" where
  "dict_items v = (case v of PDict d \<Rightarrow> Inr d | _ \<Rightarrow> Inl (no_attribute v ''items''))"

text \<open>The Intent that the loop builds for one entry of the decomposition (lines 316-320).\<close>

definition service_intent :: "string \<Rightarrow> (string \<times> pyval) list \<Rightarrow> pyval" where
  "service_intent service service_actions =
     PDict [(''service'', PStr service),
            (''action'', dict_get service_actions ''action'' PNone),
            (''details'', dict_get service_actions ''details'' (PDict []))]"

text \<open>The \<^verbatim>\<open>for\<close> loop over \<^verbatim>\<open>actions.items()\<close> (lines 315-324), on what is left of the items.\<close>

fun execute_actions ::
  "'w env \<Rightarrow> (string \<Rightarrow> 'w state \<Rightarrow> (exn + pyval) \<times> 'w state)
     \<Rightarrow> (string \<times> pyval) list \<Rightarrow> (string \<times> pyval) list \<Rightarrow> 'w state
     \<Rightarrow> (exn + (string \<times> pyval) list) \<times> 'w state" where
  "execute_actions env recur [] results s = (Inr results, s)"
| "execute_actions env recur ((service, service_actions) # rest) results s =
     (case service_actions of
        PDict sa \<Rightarrow>
          (case recur (json_dumps env (service_intent service sa)) s of
             (Inl e, s') \<Rightarrow> (Inl e, s')
           | (Inr r, s') \<Rightarrow> execute_actions env recur rest (dict_set results service r) s')
      | _ \<Rightarrow> (Inl (no_attribute service_actions ''get''), s))"

definition handle_multi_service_request ::
  "'w env \<Rightarrow> (string \<Rightarrow> 'w state \<Rightarrow> (exn + pyval) \<times> 'w state)
     \<Rightarrow> (string \<times> pyval) list \<Rightarrow> 'w state \<Rightarrow> (exn + pyval) \<times> 'w state" where
  "handle_multi_service_request env recur intent s =
     (case generate_response env (breakdown_prompt env intent)
             (Some ''You are a workflow decomposition assistant.'') s of
        (Inl e, s1) \<Rightarrow> (Inl e, s1)
      | (Inr breakdown, s1) \<Rightarrow>
          (case json_loads env breakdown of
             Inl e \<Rightarrow> (Inr (multi_failed e), s1)
           | Inr actions \<Rightarrow>
               (case dict_items actions of
                  Inl e \<Rightarrow> (Inr (multi_failed e), s1)
                | Inr items \<Rightarrow>
                    (case execute_actions env recur items [] s1 of
                       (Inl e, s2) \<Rightarrow> (Inr (multi_failed e), s2)
                     | (Inr results, s2) \<Rightarrow>
                         (Inr (PDict [(''status'', PStr ''success''),
                                      (''results'', PDict results)]), s2)))))"

text \<open>
  The dispatch on \<^verbatim>\<open>intent['service']\<close> (lines 66-82). The subscript raises \<open>KeyError\<close>
  on a dictionary without the key and \<open>TypeError\<close> on a value that is not a dictionary
  (the texts are CPython 3.11's).
\<close>

definition not_subscriptable :: "pyval \<Rightarrow> exn" where
  "not_subscriptable v =
     (case v of
        PList _ \<Rightarrow> TypeError ''list indices must be integers or slices, not str''
      | PStr _ \<Rightarrow> TypeError (''string indices must be integers, not ''
                              @ [CHR 0x27] @ ''str'' @ [CHR 0x27])
      | _ \<Rightarrow> TypeError ([CHR 0x27] @ type_name v @ [CHR 0x27] @ '' object is not subscriptable''))"

definition route_intent ::
  "'w env \<Rightarrow> (string \<Rightarrow> 'w state \<Rightarrow> (exn + pyval) \<times> 'w state)
     \<Rightarrow> pyval \<Rightarrow> 'w state \<Rightarrow> (exn + pyval) \<times> 'w state" where
  "route_intent env recur intent s =
     (case intent of
        PDict d \<Rightarrow>
          (case map_of d ''service'' of
             None \<Rightarrow> (Inl (KeyError ''service''), s)
           | Some service \<Rightarrow>
               if service = PStr ''email'' then handle_email_request env d s
               else if service = PStr ''calendar'' then handle_calendar_request env d s
               else if service = PStr ''drive'' then handle_drive_request env d s
               else if service = PStr ''sheets'' then handle_sheets_request env d s
               else if service = PStr ''docs'' then handle_docs_request env d s
               else if service = PStr ''multi'' then handle_multi_service_request env recur d s
               else (Inr (error_result (''Unsupported service: '' @ format_value env service)), s))
      | _ \<Rightarrow> (Inl (not_subscriptable intent), s))"

text \<open>The body of the \<^verbatim>\<open>try\<close> of \<^verbatim>\<open>process_natural_language_request\<close> (lines 62-82).\<close>

definition try_body ::
  "'w env \<Rightarrow> (string \<Rightarrow> 'w state \<Rightarrow> (exn + pyval) \<times> 'w state)
     \<Rightarrow> string \<Rightarrow> 'w state \<Rightarrow> (exn + pyval) \<times> 'w state" where
  "try_body env recur request s =
     (case extract_intent env request s of
        (Inl e, s') \<Rightarrow> (Inl e, s')
      | (Inr intent, s') \<Rightarrow> route_intent env recur intent s')"

text \<open>The \<^verbatim>\<open>except Exception\<close> clause (lines 84-89): it logs and returns the error Result.\<close>

definition except_clause :: "(exn + pyval) \<times> 'w state \<Rightarrow> (exn + pyval) \<times> 'w state" where
  "except_clause outcome =
     (case outcome of
        (Inl e, s') \<Rightarrow> (Inr (error_result (str_exn e)), s')
      | (Inr result, s') \<Rightarrow> (Inr result, s'))"

text \<open>
  A call of \<^verbatim>\<open>process_natural_language_request\<close> that the interpreter refuses at its
  recursion limit: \<open>RecursionError\<close> where the call is made, nothing run.
\<close>

definition recursion_limit_reached :: "string \<Rightarrow> 'w state \<Rightarrow> (exn + pyval) \<times> 'w state" where
  "recursion_limit_reached request s = (Inl (RecursionError ''maximum recursion depth exceeded''), s)"

text \<open>
  \<^verbatim>\<open>process_natural_language_request\<close> (lines 51-89). The method and
  \<^verbatim>\<open>_handle_multi_service_request\<close> call each other for as long as the model answers
  with a \<^verbatim>\<open>multi\<close> intent, and the interpreter's recursion limit bounds the nesting. The
  first argument is the number of nested calls of the method that still fit under the
  limit: with none left, the call on line 322 raises \<open>RecursionError\<close>, inside the
  \<^verbatim>\<open>try\<close> of the multi-service handler. (The interpreter may raise a few frames deeper,
  inside the nested call; placing it at the call is the model's choice.)
\<close>

fun process_natural_language_request ::
  "nat \<Rightarrow> 'w env \<Rightarrow> string \<Rightarrow> 'w state \<Rightarrow> (exn + pyval) \<times> 'w state" where
  "process_natural_language_request 0 env = (\<lambda>request s.
     except_clause (try_body env recursion_limit_reached request s))"
| "process_natural_language_request (Suc n) env = (\<lambda>request s.
     except_clause (try_body env (process_natural_language_request n env) request s))"



text \<open>What \<^verbatim>\<open>except json.JSONDecodeError\<close> matches.\<close>

fun is_decode_error :: "exn \<Rightarrow> bool" where
  "is_decode_error (JSONDecodeError _) = True"
| "is_decode_error _ = False"

section \<open>Tables and test data\<close>

text \<open>
  The ten client operations that the handlers call, with the handler of each, the service
  and the action that select it, and the keyword arguments it is called with (name and
  default of each \<^verbatim>\<open>details.get\<close>).
\<close>

fun op_service :: "client_op \<Rightarrow> string" where
  "op_service Gmail_create_item = ''email''"
| "op_service Gmail_list_items = ''email''"
| "op_service Calendar_create_item = ''calendar''"
| "op_service Calendar_list_items = ''calendar''"
| "op_service Drive_upload_file = ''drive''"
| "op_service Drive_list_items = ''drive''"
| "op_service Sheets_create_item = ''sheets''"
| "op_service Sheets_read_values = ''sheets''"
| "op_service Docs_create_item = ''docs''"
| "op_service Docs_append_text = ''docs''"

fun op_action :: "client_op \<Rightarrow> string" where
  "op_action Gmail_create_item = ''send''"
| "op_action Gmail_list_items = ''read''"
| "op_action Calendar_create_item = ''create''"
| "op_action Calendar_list_items = ''list''"
| "op_action Drive_upload_file = ''upload''"
| "op_action Drive_list_items = ''list''"
| "op_action Sheets_create_item = ''create''"
| "op_action Sheets_read_values = ''read''"
| "op_action Docs_create_item = ''create''"
| "op_action Docs_append_text = ''append''"

fun op_params :: "client_op \<Rightarrow> (string \<times> pyval) list" where
  "op_params Gmail_create_item = [(''to'', PStr ''''), (''subject'', PStr ''''), (''body'', PStr '''')]"
| "op_params Gmail_list_items = [(''max_results'', PInt 10), (''query'', PNone)]"
| "op_params Calendar_create_item =
     [(''summary'', PStr ''''), (''start_time'', PNone), (''end_time'', PNone),
      (''description'', PNone), (''attendees'', PNone)]"
| "op_params Calendar_list_items = [(''max_results'', PInt 10), (''time_min'', PNone), (''time_max'', PNone)]"
| "op_params Drive_upload_file = [(''local_path'', PStr ''''), (''name'', PNone), (''parent_id'', PNone)]"
| "op_params Drive_list_items = [(''max_results'', PInt 10), (''query'', PNone)]"
| "op_params Sheets_create_item = [(''title'', PStr ''''), (''sheets'', PNone)]"
| "op_params Sheets_read_values = [(''spreadsheet_id'', PStr ''''), (''range_name'', PStr '''')]"
| "op_params Docs_create_item = [(''title'', PStr ''''), (''content'', PNone)]"
| "op_params Docs_append_text = [(''document_id'', PStr ''''), (''text'', PStr '''')]"

fun op_handler ::
  "client_op \<Rightarrow> 'w env \<Rightarrow> (string \<times> pyval) list \<Rightarrow> 'w state \<Rightarrow> (exn + pyval) \<times> 'w state" where
  "op_handler Gmail_create_item = handle_email_request"
| "op_handler Gmail_list_items = handle_email_request"
| "op_handler Calendar_create_item = handle_calendar_request"
| "op_handler Calendar_list_items = handle_calendar_request"
| "op_handler Drive_upload_file = handle_drive_request"
| "op_handler Drive_list_items = handle_drive_request"
| "op_handler Sheets_create_item = handle_sheets_request"
| "op_handler Sheets_read_values = handle_sheets_request"
| "op_handler Docs_create_item = handle_docs_request"
| "op_handler Docs_append_text = handle_docs_request"

text \<open>
  The data of the repository's tests (\<^verbatim>\<open>tests/test_integration.py\<close>): the email and the
  calendar intent, the decomposition into the two, and the JSON text of each as
  \<^verbatim>\<open>json.dumps\<close> writes it.
\<close>

definition email_details :: pyval where
  "email_details =
     PDict [(''to'', PStr ''test@example.com''), (''subject'', PStr ''Test Subject''),
            (''body'', PStr ''Test Body'')]"

definition calendar_details :: pyval where
  "calendar_details =
     PDict [(''summary'', PStr ''Team Meeting''), (''start_time'', PStr ''2025-03-15T10:00:00Z''),
            (''end_time'', PStr ''2025-03-15T11:00:00Z'')]"

definition email_intent :: "(string \<times> pyval) list" where
  "email_intent = [(''service'', PStr ''email''), (''action'', PStr ''send''), (''details'', email_details)]"

definition calendar_intent :: "(string \<times> pyval) list" where
  "calendar_intent =
     [(''service'', PStr ''calendar''), (''action'', PStr ''create''), (''details'', calendar_details)]"

definition test_actions :: "(string \<times> pyval) list" where
  "test_actions =
     [(''email'', PDict [(''action'', PStr ''send''), (''details'', email_details)]),
      (''calendar'', PDict [(''action'', PStr ''create''), (''details'', calendar_details)])]"

definition multi_intent :: "(string \<times> pyval) list" where
  "multi_intent =
     [(''service'', PStr ''multi''), (''details'', PStr ''Send an email and create a calendar event'')]"

definition email_json :: string where
  \<open>email_json = ''{"service": "email", "action": "send", "details": {"to": "test@example.com", "subject": "Test Subject", "body": "Test Body"}}''\<close>

definition calendar_json :: string where
  \<open>calendar_json = ''{"service": "calendar", "action": "create", "details": {"summary": "Team Meeting", "start_time": "2025-03-15T10:00:00Z", "end_time": "2025-03-15T11:00:00Z"}}''\<close>

definition breakdown_json :: string where
  \<open>breakdown_json = ''{"email": {"action": "send", "details": {"to": "test@example.com", "subject": "Test Subject", "body": "Test Body"}}, "calendar": {"action": "create", "details": {"summary": "Team Meeting", "start_time": "2025-03-15T10:00:00Z", "end_time": "2025-03-15T11:00:00Z"}}}''\<close>

text \<open>
  A test double of the environment, as the tests' \<^verbatim>\<open>Mock\<close> objects are. \<open>mock_loads\<close> and
  \<open>mock_dumps\<close> are \<^verbatim>\<open>json.loads\<close> and \<^verbatim>\<open>json.dumps\<close> tabulated on the texts and values
  above; a text that does not start a JSON value (\<^verbatim>\<open>Invalid JSON\<close>, a sentence) fails at
  its first character, and \<open>deep_json\<close>, 1100 opening brackets, exceeds the recursion
  limit of the decoder (1000 by default). The outside world is the number of model calls made so far: the
  model answers from a script (\<open>replies\<close>) or always the same (\<open>always\<close>), and a client
  method returns or raises by its name alone.
\<close>

definition deep_json :: string where
  "deep_json = replicate 1100 (CHR ''['')"

definition mock_loads :: "string \<Rightarrow> exn + pyval" where
  "mock_loads t =
     (if t = email_json then Inr (PDict email_intent)
      else if t = calendar_json then Inr (PDict calendar_intent)
      else if t = breakdown_json then Inr (PDict test_actions)
      else if t = ''[]'' then Inr (PList [])
      else if t = deep_json then
        Inl (RecursionError (''maximum recursion depth exceeded while decoding ''
                             @ ''a JSON array from a unicode string''))
      else Inl (JSONDecodeError ''Expecting value: line 1 column 1 (char 0)''))"

definition mock_dumps :: "pyval \<Rightarrow> string" where
  "mock_dumps v =
     (if v = PDict email_intent then email_json
      else if v = PDict calendar_intent then calendar_json
      else ''null'')"

definition mock_env ::
  "(nat \<Rightarrow> exn + string list) \<Rightarrow> (client_op \<Rightarrow> exn + pyval) \<Rightarrow> nat env" where
  "mock_env model clients =
     \<lparr>chat_completions_create = (\<lambda>msgs w. (model w, Suc w)),
      json_loads = mock_loads,
      json_dumps = mock_dumps,
      py_repr = (\<lambda>v. ''''),
      client_call = (\<lambda>op kwargs w. (clients op, w))\<rparr>"

definition replies :: "string list \<Rightarrow> nat \<Rightarrow> exn + string list" where
  "replies rs w = (if w < length rs then Inr [rs ! w] else Inl (RemoteError ''Connection error.''))"

definition clients_ok :: "client_op \<Rightarrow> exn + pyval" where
  "clients_ok op =
     (case op of
        Gmail_create_item \<Rightarrow> Inr (PDict [(''id'', PStr ''sent_email_id'')])
      | Calendar_create_item \<Rightarrow> Inr (PDict [(''id'', PStr ''created_event_id'')])
      | _ \<Rightarrow> Inr (PList []))"


definition always :: "string \<Rightarrow> nat \<Rightarrow> exn + string list" where
  "always r w = Inr [r]"

text \<open>A new client: empty history, the default bound of 10, no call made.\<close>

definition fresh :: "nat state" where
  "fresh = \<lparr>llm_context = \<lparr>messages = [], max_context_length = 10\<rparr>, world = 0\<rparr>"

section \<open>Properties\<close>

subsection \<open>The model on the repository's tests\<close>

text \<open>\<^verbatim>\<open>test_context_max_length\<close>: five appends with the bound 3.\<close>

lemma test_context_max_length:
  "messages (add_messages \<lparr>messages = [], max_context_length = 3\<rparr>
      [\<lparr>role = ''user'', content = ''Message 0''\<rparr>, \<lparr>role = ''user'', content = ''Message 1''\<rparr>,
       \<lparr>role = ''user'', content = ''Message 2''\<rparr>, \<lparr>role = ''user'', content = ''Message 3''\<rparr>,
       \<lparr>role = ''user'', content = ''Message 4''\<rparr>])
   = [\<lparr>role = ''user'', content = ''Message 2''\<rparr>, \<lparr>role = ''user'', content = ''Message 3''\<rparr>,
      \<lparr>role = ''user'', content = ''Message 4''\<rparr>]"
  by (simp add: add_messages_def add_message_def slice_from_def)

text \<open>\<^verbatim>\<open>test_process_natural_language_request\<close>: the model answers with the email intent.\<close>

lemma test_process_natural_language_request:
  "fst (process_natural_language_request 0 (mock_env (always email_json) clients_ok)
          ''Send an email to test@example.com'' fresh)
   = Inr (PDict [(''status'', PStr ''success''),
                 (''result'', PDict [(''id'', PStr ''sent_email_id'')])])"
  by code_simp

subsection \<open>History\<close>

lemma slice_from_neg: "0 < n \<Longrightarrow> slice_from (- n) xs = drop (length xs - nat n) xs"
  by (auto simp: slice_from_def Let_def max_def nat_diff_distrib' intro: arg_cong[where f="\<lambda>k. drop k xs"])

lemma slice_from_is_drop: "\<exists>k. slice_from i xs = drop k xs"
  unfolding slice_from_def Let_def by blast

lemma messages_add_message:
  "0 < max_context_length c \<Longrightarrow>
   messages (add_message c r t) =
     drop (Suc (length (messages c)) - nat (max_context_length c))
       (messages c @ [\<lparr>role = r, content = t\<rparr>])"
  by (auto simp: add_message_def Let_def slice_from_neg)

lemma max_add_message [simp]: "max_context_length (add_message c r t) = max_context_length c"
  by (simp add: add_message_def Let_def)

lemma max_add_messages [simp]: "max_context_length (add_messages c ms) = max_context_length c"
  unfolding add_messages_def by (induction ms arbitrary: c) simp_all

lemma drop_window:
  assumes "length xs \<le> n" "0 < n"
  shows "drop (length (drop (Suc (length xs) - n) (xs @ [m])) + length ms - n)
           (drop (Suc (length xs) - n) (xs @ [m]) @ ms)
         = drop (length xs + length (m # ms) - n) (xs @ m # ms)"
proof (cases "length xs < n")
  case True
  then show ?thesis by simp
next
  case False
  with assms have n: "n = length xs" by simp
  have "xs @ m # ms = (xs @ [m]) @ ms" by simp
  then show ?thesis unfolding n by (cases xs) simp_all
qed

lemma messages_add_messages:
  "0 < max_context_length c \<Longrightarrow> length (messages c) \<le> nat (max_context_length c) \<Longrightarrow>
   messages (add_messages c ms) =
     drop (length (messages c) + length ms - nat (max_context_length c)) (messages c @ ms)"
proof (induction ms arbitrary: c)
  case Nil
  then show ?case by (simp add: add_messages_def)
next
  case (Cons m ms)
  let ?c = "add_message c (role m) (content m)"
  let ?n = "nat (max_context_length c)"
  have m: "\<lparr>role = role m, content = content m\<rparr> = m" by simp
  have step: "messages ?c = drop (Suc (length (messages c)) - ?n) (messages c @ [m])"
    using Cons.prems(1) by (simp add: messages_add_message m del: message.simps)
  have len: "length (messages ?c) \<le> ?n"
    using Cons.prems by (simp add: step)
  have "messages (add_messages c (m # ms)) = messages (add_messages ?c ms)"
    by (simp add: add_messages_def)
  also have "\<dots> = drop (length (messages ?c) + length ms - ?n) (messages ?c @ ms)"
    using Cons.IH[of ?c] Cons.prems(1) len by simp
  also have "\<dots> = drop (length (messages c) + length (m # ms) - ?n) (messages c @ m # ms)"
    unfolding step using drop_window[of "messages c" ?n m ms] Cons.prems by simp
  finally show ?case .
qed

text \<open>
  For a positive bound \<open>N\<close>, \<open>N + k\<close> appends to an empty history leave exactly the last
  \<open>N\<close> messages, in the order they were appended.
\<close>

lemma history_bound_positive:
  assumes "0 < N" and "length ms = nat N + k" and "0 < k"
  shows "messages (add_messages \<lparr>messages = [], max_context_length = N\<rparr> ms) = drop k ms"
    and "length (messages (add_messages \<lparr>messages = [], max_context_length = N\<rparr> ms)) = nat N"
  using assms messages_add_messages[of "\<lparr>messages = [], max_context_length = N\<rparr>" ms] by simp_all

text \<open>
  C4 (history bound). With the bound 0 nothing is evicted: \<^verbatim>\<open>messages[-0:]\<close> is the whole
  list, so after two appends the history holds both messages, not the last 0 of them.
\<close>

theorem history_unbounded_at_zero:
  "messages (add_messages \<lparr>messages = [], max_context_length = 0\<rparr>
      [\<lparr>role = ''user'', content = ''Message 0''\<rparr>, \<lparr>role = ''user'', content = ''Message 1''\<rparr>])
   = [\<lparr>role = ''user'', content = ''Message 0''\<rparr>, \<lparr>role = ''user'', content = ''Message 1''\<rparr>]"
  by (simp add: add_messages_def add_message_def slice_from_def)

lemma suffix_add_message:
  "suffix (messages (add_message c r t)) (messages c @ [\<lparr>role = r, content = t\<rparr>])"
proof -
  obtain k where "slice_from (- max_context_length c) (messages c @ [\<lparr>role = r, content = t\<rparr>])
                    = drop k (messages c @ [\<lparr>role = r, content = t\<rparr>])"
    using slice_from_is_drop by blast
  then have "suffix (slice_from (- max_context_length c) (messages c @ [\<lparr>role = r, content = t\<rparr>]))
               (messages c @ [\<lparr>role = r, content = t\<rparr>])"
    by (simp only: suffix_drop)
  moreover have "messages (add_message c r t) =
                   slice_from (- max_context_length c) (messages c @ [\<lparr>role = r, content = t\<rparr>])
               \<or> messages (add_message c r t) = messages c @ [\<lparr>role = r, content = t\<rparr>]"
    by (simp add: add_message_def Let_def)
  ultimately show ?thesis
    by (elim disjE) (simp_all only: suffix_order.refl)
qed

lemma messages_add_message_fits:
  "int (length (messages c)) < max_context_length c \<Longrightarrow>
   messages (add_message c r t) = messages c @ [\<lparr>role = r, content = t\<rparr>]"
  by (simp add: add_message_def Let_def)

subsection \<open>The completion call\<close>

text \<open>
  C9 (a failed call leaves the history alone). When the model call raises,
  \<^verbatim>\<open>generate_response\<close> raises the same exception; and whenever \<^verbatim>\<open>generate_response\<close>
  raises, the conversation context after the call is the one before it.
\<close>

theorem generate_response_failure_atomic:
  "(fst (chat_completions_create env
           (outgoing_messages system_message (messages (llm_context s)) prompt) (world s)) = Inl e
      \<longrightarrow> fst (generate_response env prompt system_message s) = Inl e)
   \<and> (fst (generate_response env prompt system_message s) = Inl e
      \<longrightarrow> llm_context (snd (generate_response env prompt system_message s)) = llm_context s)"
  by (auto simp: generate_response_def split: prod.splits sum.splits list.splits)

theorem generate_response_failure_atomic_witness:
  "fst (generate_response (mock_env (replies []) clients_ok) ''Test prompt'' None fresh)
     = Inl (RemoteError ''Connection error.'')
   \<and> llm_context (snd (generate_response (mock_env (replies []) clients_ok) ''Test prompt'' None fresh))
     = \<lparr>messages = [], max_context_length = 10\<rparr>"
proof -
  have "fst (chat_completions_create (mock_env (replies []) clients_ok)
           (outgoing_messages None (messages (llm_context fresh)) ''Test prompt'') (world fresh))
        = Inl (RemoteError ''Connection error.'')"
    by (simp add: mock_env_def replies_def)
  with generate_response_failure_atomic
         [of "mock_env (replies []) clients_ok" None fresh "''Test prompt''" "RemoteError ''Connection error.''"]
  show ?thesis by (simp add: fresh_def)
qed

text \<open>
  C10 (what a successful call stores). After a successful \<^verbatim>\<open>generate_response\<close> the
  context is the old one with two appends, the user prompt and then the assistant's answer,
  whatever the system message was. The stored history is a suffix of the old history
  followed by these two entries, so the system message is not in it; and when the bound
  leaves room for two more entries it is exactly the old history followed by the two.
\<close>

theorem generate_response_appends_two:
  assumes "generate_response env prompt system_message s = (Inr answer, s')"
  shows "llm_context s' =
           add_message (add_message (llm_context s) ''user'' prompt) ''assistant'' answer
       \<and> suffix (messages (llm_context s'))
           (messages (llm_context s)
              @ [\<lparr>role = ''user'', content = prompt\<rparr>, \<lparr>role = ''assistant'', content = answer\<rparr>])
       \<and> (int (length (messages (llm_context s))) + 2 \<le> max_context_length (llm_context s)
            \<longrightarrow> messages (llm_context s') =
                  messages (llm_context s)
                    @ [\<lparr>role = ''user'', content = prompt\<rparr>, \<lparr>role = ''assistant'', content = answer\<rparr>])"
proof -
  let ?u = "\<lparr>role = ''user'', content = prompt\<rparr>"
  let ?a = "\<lparr>role = ''assistant'', content = answer\<rparr>"
  let ?c1 = "add_message (llm_context s) ''user'' prompt"
  have ctx: "llm_context s' = add_message ?c1 ''assistant'' answer"
    using assms by (auto simp: generate_response_def split: prod.splits sum.splits list.splits)
  have "suffix (messages (add_message ?c1 ''assistant'' answer)) (messages ?c1 @ [?a])"
    by (rule suffix_add_message)
  moreover have "suffix (messages ?c1 @ [?a]) ((messages (llm_context s) @ [?u]) @ [?a])"
    using suffix_add_message[of "llm_context s" "''user''" prompt] by (simp del: append_assoc)
  ultimately have "suffix (messages (llm_context s')) ((messages (llm_context s) @ [?u]) @ [?a])"
    unfolding ctx by (rule suffix_order.trans)
  then have suf: "suffix (messages (llm_context s')) (messages (llm_context s) @ [?u, ?a])"
    by simp
  have fits: "messages (llm_context s') = messages (llm_context s) @ [?u, ?a]"
    if "int (length (messages (llm_context s))) + 2 \<le> max_context_length (llm_context s)"
  proof -
    have 1: "messages ?c1 = messages (llm_context s) @ [?u]"
      using that by (intro messages_add_message_fits) simp
    have 2: "messages (add_message ?c1 ''assistant'' answer) = messages ?c1 @ [?a]"
      using that 1 by (intro messages_add_message_fits) simp
    show ?thesis using ctx 1 2 by simp
  qed
  show ?thesis using ctx suf fits by blast
qed

theorem generate_response_appends_two_witness:
  "messages (llm_context (snd (generate_response (mock_env (replies [''Test response'']) clients_ok)
                                  ''Test prompt'' (Some ''Be brief.'') fresh)))
   = [\<lparr>role = ''user'', content = ''Test prompt''\<rparr>,
      \<lparr>role = ''assistant'', content = ''Test response''\<rparr>]"
proof -
  let ?env = "mock_env (replies [''Test response'']) clients_ok"
  have run: "generate_response ?env ''Test prompt'' (Some ''Be brief.'') fresh
               = (Inr ''Test response'', snd (generate_response ?env ''Test prompt'' (Some ''Be brief.'') fresh))"
    by (simp add: generate_response_def mock_env_def replies_def fresh_def)
  have fits: "int (length (messages (llm_context fresh))) + 2 \<le> max_context_length (llm_context fresh)"
    by (simp add: fresh_def)
  from generate_response_appends_two[OF run, THEN conjunct2, THEN conjunct2, rule_format, OF fits]
  show ?thesis by (simp add: fresh_def)
qed

subsection \<open>Handlers\<close>

lemma call_client_returns:
  assumes "eval_kwargs details params = Inr kwargs"
      and "client_call env op kwargs (world s) = (Inr v, w')"
  shows "call_client env op details params s = (Inr (success_result v), s\<lparr>world := w'\<rparr>)"
  using assms by (simp add: call_client_def)


lemma op_handler_calls_client:
  "dict_get intent ''action'' (PStr '''') = PStr (op_action op) \<Longrightarrow>
   op_handler op env intent s =
     call_client env op (dict_get intent ''details'' (PDict [])) (op_params op) s"
  by (cases op)
     (simp_all add: handle_email_request_def handle_calendar_request_def handle_drive_request_def
        handle_sheets_request_def handle_docs_request_def Let_def)

lemma op_handler_returns:
  assumes "dict_get intent ''action'' (PStr '''') = PStr (op_action op)"
      and "eval_kwargs (dict_get intent ''details'' (PDict [])) (op_params op) = Inr kwargs"
      and "client_call env op kwargs (world s) = (Inr v, w')"
  shows "op_handler op env intent s = (Inr (success_result v), s\<lparr>world := w'\<rparr>)"
  using assms by (simp only: op_handler_calls_client call_client_returns)


lemma route_intent_service:
  "map_of d ''service'' = Some (PStr (op_service op)) \<Longrightarrow>
   route_intent env recur (PDict d) s = op_handler op env d s"
  by (cases op) (simp_all add: route_intent_def)

text \<open>
  C5, as amended (the wrapped result). For each of the ten operations: when the intent's
  action is the operation's, the keyword arguments evaluate, and the client call returns
  \<open>v\<close>, the handler returns \<^verbatim>\<open>{'status': 'success', 'result': v}\<close>, the value under the
  key \<^verbatim>\<open>result\<close>; and so does the dispatch on an intent whose service is the operation's.
\<close>

theorem handler_wraps_client_result:
  assumes "dict_get intent ''action'' (PStr '''') = PStr (op_action op)"
      and "eval_kwargs (dict_get intent ''details'' (PDict [])) (op_params op) = Inr kwargs"
      and "client_call env op kwargs (world s) = (Inr v, w')"
  shows "op_handler op env intent s =
           (Inr (PDict [(''status'', PStr ''success''), (''result'', v)]), s\<lparr>world := w'\<rparr>)
       \<and> (map_of intent ''service'' = Some (PStr (op_service op)) \<longrightarrow>
            route_intent env recur (PDict intent) s =
              (Inr (PDict [(''status'', PStr ''success''), (''result'', v)]), s\<lparr>world := w'\<rparr>))"
  using op_handler_returns[OF assms] by (simp add: route_intent_service success_result_def)

theorem handler_wraps_client_result_witness:
  "handle_email_request (mock_env (replies []) clients_ok) email_intent fresh =
     (Inr (PDict [(''status'', PStr ''success''),
                  (''result'', PDict [(''id'', PStr ''sent_email_id'')])]), fresh)"
proof -
  let ?env = "mock_env (replies []) clients_ok"
  let ?kwargs = "[(''to'', PStr ''test@example.com''), (''subject'', PStr ''Test Subject''),
                  (''body'', PStr ''Test Body'')]"
  have a: "dict_get email_intent ''action'' (PStr '''') = PStr (op_action Gmail_create_item)"
    by (simp add: email_intent_def dict_get_def)
  have k: "eval_kwargs (dict_get email_intent ''details'' (PDict [])) (op_params Gmail_create_item)
             = Inr ?kwargs"
    by (simp add: email_intent_def email_details_def dict_get_def value_get_def)
  have c: "client_call ?env Gmail_create_item ?kwargs (world fresh)
             = (Inr (PDict [(''id'', PStr ''sent_email_id'')]), 0)"
    by (simp add: mock_env_def clients_ok_def fresh_def)
  from handler_wraps_client_result[OF a k c, THEN conjunct1]
  show ?thesis by (simp add: fresh_def)
qed

text \<open>
  C5, as stated, fails: the mail client returns \<^verbatim>\<open>{'id': 'sent_email_id'}\<close> and the handler's
  result is not \<^verbatim>\<open>{'status': 'success', 'payload': {'id': 'sent_email_id'}}\<close>.
\<close>

theorem handler_payload_key_counterexample:
  "client_call (mock_env (replies []) clients_ok) Gmail_create_item
       [(''to'', PStr ''test@example.com''), (''subject'', PStr ''Test Subject''),
        (''body'', PStr ''Test Body'')] (world fresh)
     = (Inr (PDict [(''id'', PStr ''sent_email_id'')]), world fresh)
   \<and> fst (handle_email_request (mock_env (replies []) clients_ok) email_intent fresh)
     \<noteq> Inr (PDict [(''status'', PStr ''success''),
                   (''payload'', PDict [(''id'', PStr ''sent_email_id'')])])"
  by (simp add: handle_email_request_def email_intent_def email_details_def dict_get_def
      call_client_def value_get_def mock_env_def clients_ok_def success_result_def fresh_def)

text \<open>
  C8 (unknown action). Each of the five handlers returns \<^verbatim>\<open>None\<close>, and changes nothing,
  on an intent whose action is neither of the two it knows.
\<close>

theorem unknown_action_returns_none:
  "(dict_get intent ''action'' (PStr '''') \<notin> {PStr ''send'', PStr ''read''}
      \<longrightarrow> handle_email_request env intent s = (Inr PNone, s))
   \<and> (dict_get intent ''action'' (PStr '''') \<notin> {PStr ''create'', PStr ''list''}
      \<longrightarrow> handle_calendar_request env intent s = (Inr PNone, s))
   \<and> (dict_get intent ''action'' (PStr '''') \<notin> {PStr ''upload'', PStr ''list''}
      \<longrightarrow> handle_drive_request env intent s = (Inr PNone, s))
   \<and> (dict_get intent ''action'' (PStr '''') \<notin> {PStr ''create'', PStr ''read''}
      \<longrightarrow> handle_sheets_request env intent s = (Inr PNone, s))
   \<and> (dict_get intent ''action'' (PStr '''') \<notin> {PStr ''create'', PStr ''append''}
      \<longrightarrow> handle_docs_request env intent s = (Inr PNone, s))"
  by (simp add: handle_email_request_def handle_calendar_request_def handle_drive_request_def
      handle_sheets_request_def handle_docs_request_def Let_def)

theorem unknown_action_returns_none_witness:
  "handle_email_request (mock_env (replies []) clients_ok)
     [(''service'', PStr ''email''), (''action'', PStr ''delete''),
      (''details'', PDict [(''id'', PStr ''42'')])] fresh = (Inr PNone, fresh)"
proof -
  let ?intent = "[(''service'', PStr ''email''), (''action'', PStr ''delete''),
                  (''details'', PDict [(''id'', PStr ''42'')])]"
  have "dict_get ?intent ''action'' (PStr '''') \<notin> {PStr ''send'', PStr ''read''}"
    by (simp add: dict_get_def)
  with unknown_action_returns_none[of ?intent "mock_env (replies []) clients_ok" fresh, THEN conjunct1]
  show ?thesis by blast
qed

subsection \<open>Intent extraction\<close>

lemma deep_json_differs: "length t \<noteq> 1100 \<Longrightarrow> (t = deep_json) = False"
  by (auto simp: deep_json_def)

text \<open>
  C1, as stated, fails: on the answer \<open>deep_json\<close> the parse fails with \<open>RecursionError\<close>,
  which \<^verbatim>\<open>except json.JSONDecodeError\<close> does not catch, and \<^verbatim>\<open>_extract_intent\<close> raises it
  instead of returning the fallback intent.
\<close>

theorem extract_intent_unparseable_counterexample:
  "json_loads (mock_env (always deep_json) clients_ok) deep_json
     = Inl (RecursionError (''maximum recursion depth exceeded while decoding ''
                            @ ''a JSON array from a unicode string''))
   \<and> fst (generate_response (mock_env (always deep_json) clients_ok) ''Complex request''
            (Some system_prompt) fresh) = Inr deep_json
   \<and> fst (extract_intent (mock_env (always deep_json) clients_ok) ''Complex request'' fresh)
     = Inl (RecursionError (''maximum recursion depth exceeded while decoding ''
                            @ ''a JSON array from a unicode string''))"
proof -
  have len: "length email_json \<noteq> 1100" "length calendar_json \<noteq> 1100"
            "length breakdown_json \<noteq> 1100"
    by (simp_all add: email_json_def calendar_json_def breakdown_json_def)
  have deep: "length deep_json = 1100"
    by (simp add: deep_json_def)
  have neq: "deep_json \<noteq> email_json" "deep_json \<noteq> calendar_json" "deep_json \<noteq> breakdown_json"
            "deep_json \<noteq> ''[]''"
    using len deep by (auto dest: arg_cong[where f = length])
  have p: "mock_loads deep_json
             = Inl (RecursionError (''maximum recursion depth exceeded while decoding ''
                                    @ ''a JSON array from a unicode string''))"
    using neq by (simp add: mock_loads_def)
  have g: "fst (generate_response (mock_env (always deep_json) clients_ok) ''Complex request''
                  (Some system_prompt) fresh) = Inr deep_json"
    by (simp add: generate_response_def mock_env_def always_def)
  show ?thesis
    using p g
    by (simp add: extract_intent_def generate_response_def mock_env_def always_def)
qed

text \<open>
  C1, as amended (fallback intent). When the model answers and \<^verbatim>\<open>json.loads\<close> raises
  \<open>JSONDecodeError\<close> on the answer, \<^verbatim>\<open>_extract_intent\<close> returns the intent with service
  \<^verbatim>\<open>multi\<close>, action \<^verbatim>\<open>interpret\<close> and the request itself as details; when
  \<^verbatim>\<open>json.loads\<close> raises anything else, \<^verbatim>\<open>_extract_intent\<close> raises the same exception.
\<close>

theorem extract_intent_fallback:
  assumes "generate_response env request (Some system_prompt) s = (Inr response, s')"
  shows "(json_loads env response = Inl (JSONDecodeError m) \<longrightarrow>
            extract_intent env request s =
              (Inr (PDict [(''service'', PStr ''multi''), (''action'', PStr ''interpret''),
                           (''details'', PStr request)]), s'))
       \<and> (json_loads env response = Inl e \<and> \<not> is_decode_error e \<longrightarrow>
            extract_intent env request s = (Inl e, s'))"
  using assms by (cases e) (simp_all add: extract_intent_def fallback_intent_def)

theorem extract_intent_fallback_witness:
  "fst (extract_intent (mock_env (replies [''Invalid JSON'']) clients_ok) ''Complex request'' fresh)
     = Inr (PDict [(''service'', PStr ''multi''), (''action'', PStr ''interpret''),
                   (''details'', PStr ''Complex request'')])"
proof -
  let ?env = "mock_env (replies [''Invalid JSON'']) clients_ok"
  have g: "generate_response ?env ''Complex request'' (Some system_prompt) fresh
             = (Inr ''Invalid JSON'',
                snd (generate_response ?env ''Complex request'' (Some system_prompt) fresh))"
    by (simp add: generate_response_def mock_env_def replies_def fresh_def)
  have p: "json_loads ?env ''Invalid JSON''
             = Inl (JSONDecodeError ''Expecting value: line 1 column 1 (char 0)'')"
    by (simp add: mock_env_def mock_loads_def email_json_def calendar_json_def breakdown_json_def
        deep_json_differs)
  from extract_intent_fallback[OF g, THEN conjunct1, rule_format, OF p] show ?thesis by simp
qed

subsection \<open>The entry point\<close>







subsection \<open>The multi-service handler\<close>









text \<open>
  At the recursion limit the first sub-request raises, and the handler's \<^verbatim>\<open>except\<close> turns
  that into the error Result.
\<close>

lemma multi_at_recursion_limit:
  assumes "generate_response env (breakdown_prompt env intent)
             (Some ''You are a workflow decomposition assistant.'') s = (Inr breakdown, s1)"
      and "json_loads env breakdown = Inr (PDict ((service, PDict sa) # rest))"
  shows "handle_multi_service_request env recursion_limit_reached intent s =
           (Inr (multi_failed (RecursionError ''maximum recursion depth exceeded'')), s1)"
  using assms
  by (simp add: handle_multi_service_request_def dict_items_def recursion_limit_reached_def)

text \<open>
  C7 (an unparseable decomposition). When the model answers the breakdown prompt and
  \<^verbatim>\<open>json.loads\<close> raises on the answer, the multi-service handler returns the error Result
  whose message is \<^verbatim>\<open>Multi-service request processing failed: \<close> followed by the
  exception's text; no sub-request is made.
\<close>

theorem multi_unparseable_is_error:
  assumes "generate_response env (breakdown_prompt env intent)
             (Some ''You are a workflow decomposition assistant.'') s = (Inr breakdown, s1)"
      and "json_loads env breakdown = Inl e"
  shows "handle_multi_service_request env recur intent s =
           (Inr (PDict [(''status'', PStr ''error''),
                        (''message'', PStr (''Multi-service request processing failed: ''
                                            @ str_exn e))]), s1)"
  using assms by (simp add: handle_multi_service_request_def multi_failed_def error_result_def)

theorem multi_unparseable_is_error_witness:
  "fst (handle_multi_service_request (mock_env (replies [''I cannot help with that.'']) clients_ok)
          (process_natural_language_request (Suc 0)
             (mock_env (replies [''I cannot help with that.'']) clients_ok))
          multi_intent fresh)
   = Inr (PDict [(''status'', PStr ''error''),
                 (''message'', PStr (''Multi-service request processing failed: ''
                                     @ ''Expecting value: line 1 column 1 (char 0)''))])"
proof -
  let ?env = "mock_env (replies [''I cannot help with that.'']) clients_ok"
  let ?sm = "Some ''You are a workflow decomposition assistant.''"
  have g: "generate_response ?env (breakdown_prompt ?env multi_intent) ?sm fresh
             = (Inr ''I cannot help with that.'',
                snd (generate_response ?env (breakdown_prompt ?env multi_intent) ?sm fresh))"
    by (simp add: generate_response_def mock_env_def replies_def fresh_def)
  have p: "json_loads ?env ''I cannot help with that.''
             = Inl (JSONDecodeError ''Expecting value: line 1 column 1 (char 0)'')"
    by (simp add: mock_env_def mock_loads_def email_json_def calendar_json_def breakdown_json_def
        deep_json_differs)
  from multi_unparseable_is_error[OF g p] show ?thesis by simp
qed




text \<open>
  C6 (sub-intents are not dispatched directly). In the setting of the repository's test
  of the multi-service handler, where the model gives the decomposition as every answer,
  each sub-request goes through intent extraction again: the decomposition is taken for
  the intent, has no \<^verbatim>\<open>service\<close> key, and both sub-results are the error of that
  \<open>KeyError\<close>. Dispatching the email intent that the loop built gives the mail client's
  result.
\<close>

theorem multi_sub_intents_reextracted:
  "fst (handle_multi_service_request (mock_env (always breakdown_json) clients_ok)
          (process_natural_language_request (Suc 0) (mock_env (always breakdown_json) clients_ok))
          multi_intent fresh)
   = Inr (PDict
        [(''status'', PStr ''success''),
         (''results'', PDict
            [(''email'', PDict [(''status'', PStr ''error''),
                               (''message'', PStr ([CHR 0x27] @ ''service'' @ [CHR 0x27]))]),
             (''calendar'', PDict [(''status'', PStr ''error''),
                                  (''message'', PStr ([CHR 0x27] @ ''service'' @ [CHR 0x27]))])])])
   \<and> fst (route_intent (mock_env (always breakdown_json) clients_ok)
            (process_natural_language_request (Suc 0) (mock_env (always breakdown_json) clients_ok))
            (service_intent ''email'' [(''action'', PStr ''send''), (''details'', email_details)])
            fresh)
     = Inr (PDict [(''status'', PStr ''success''),
                   (''result'', PDict [(''id'', PStr ''sent_email_id'')])])"
  by code_simp

end
